theory Spec2Isabelle
  imports Main "HOL-Library.Word"
begin

unbundle bit_operations_syntax

section \<open>Element: the graph node (src/engine/GraphNode.h)\<close>

text \<open>
  The engine's \<^verbatim>\<open>GraphNode\<close> is a C++ class whose scalar state lives in
  \<^verbatim>\<open>Atomic<int>\<close> and \<^verbatim>\<open>Atomic<float>\<close> members. The model is a record
  with one field per member, and every member function becomes a function that takes the
  node and returns the value read or the node as updated.

  \<^item> A C++ \<^verbatim>\<open>int\<close> is an \<open>int\<close>; the single place where the header does
    arithmetic on one (\<^verbatim>\<open>getLatencySamples\<close>) writes the 32-bit two's
    complement wrap-around out.
  \<^item> A C++ \<^verbatim>\<open>float\<close> is its IEEE-754 binary32 bit pattern, a \<open>32 word\<close>:
    the header stores, copies and compares floats, and the comparison \<^verbatim>\<open>!=\<close> is
    the IEEE one (a NaN differs from everything, the two zeros are equal).
  \<^item> \<^verbatim>\<open>juce::String\<close> is a \<open>string\<close>, \<^verbatim>\<open>OwnedArray\<close> a list.
\<close>

subsection \<open>Floats as bit patterns\<close>

type_synonym float32 = "32 word"

definition isNaN32 :: "float32 \<Rightarrow> bool" where
  "isNaN32 x = (x AND 0x7F800000 = 0x7F800000 \<and> x AND 0x007FFFFF \<noteq> 0)"

definition isZero32 :: "float32 \<Rightarrow> bool" where
  "isZero32 x = (x AND 0x7FFFFFFF = 0)"

text \<open>The C++ comparison \<^verbatim>\<open>a != b\<close> on two floats.\<close>

definition float_ne :: "float32 \<Rightarrow> float32 \<Rightarrow> bool" where
  "float_ne a b = (isNaN32 a \<or> isNaN32 b \<or> (a \<noteq> b \<and> \<not> (isZero32 a \<and> isZero32 b)))"

text \<open>
  Two bit patterns are the same float when they are identical, or when both are a zero
  (\<^verbatim>\<open>+0.0f\<close> is \<open>0x00000000\<close>, \<^verbatim>\<open>-0.0f\<close> is \<open>0x80000000\<close>).
\<close>

definition same_float :: "float32 \<Rightarrow> float32 \<Rightarrow> bool" where
  "same_float a b = (a = b \<or> (isZero32 a \<and> isZero32 b))"

subsection \<open>Ports\<close>

text \<open>
  The port table \<^verbatim>\<open>kv::PortList ports\<close> comes from a library outside the
  repository; a port is the description the engine reads from it: its type, its
  direction, its index on the node, its channel and its name.
\<close>

datatype PortType = Audio | Control | Midi

datatype PortDirection = Input | Output

record Port =
  portType :: PortType
  portDirection :: PortDirection
  portIndex :: "32 word"
  portChannel :: int
  portName :: string

subsection \<open>The node's state\<close>

record GraphNode =
  nodeId :: "32 word"
  ports :: "Port list"
  isPrepared :: bool
  enabled :: int
  bypassed :: int
  mute :: int
  muteInput :: int
  latencySamples :: int
  name :: string
  gain :: float32
  lastGain :: float32
  inputGain :: float32
  lastInputGain :: float32
  inRMS :: "float32 list"
  outRMS :: "float32 list"
  keyRangeLow :: int
  keyRangeHigh :: int
  transposeOffset :: int
  midiProgram :: int
  lastMidiProgram :: int
  midiProgramsEnabled :: int
  globalMidiPrograms :: int
  osPow :: int
  osLatency :: float32

text \<open>\<^verbatim>\<open>const int maxOsPow = 3;\<close>\<close>

definition maxOsPow :: int where
  "maxOsPow = 3"

text \<open>
  Construction. The header gives these members a default initialiser:
  \<^verbatim>\<open>isPrepared = false\<close>, \<^verbatim>\<open>enabled { 1 }\<close>, \<^verbatim>\<open>bypassed { 0 }\<close>,
  \<^verbatim>\<open>mute { 0 }\<close>, \<^verbatim>\<open>muteInput { 0 }\<close>, \<^verbatim>\<open>latencySamples = 0\<close>,
  \<^verbatim>\<open>keyRangeLow { 0 }\<close>, \<^verbatim>\<open>keyRangeHigh { 127 }\<close>, \<^verbatim>\<open>transposeOffset { 0 }\<close>,
  \<^verbatim>\<open>midiProgram { 0 }\<close>, \<^verbatim>\<open>lastMidiProgram { -1 }\<close>,
  \<^verbatim>\<open>midiProgramsEnabled { 0 }\<close>, \<^verbatim>\<open>globalMidiPrograms { 0 }\<close>,
  \<^verbatim>\<open>osPow = 0\<close> and \<^verbatim>\<open>osLatency = 0.0f\<close>. The members it leaves without one
  (the name, the four gains, the RMS arrays, the ports) are whatever the constructor
  \<^verbatim>\<open>GraphNode (uint32 nodeId)\<close> makes of them; its body is not part of the header,
  so they are taken from the argument \<open>rest\<close>.
\<close>

definition newGraphNode :: "32 word \<Rightarrow> GraphNode \<Rightarrow> GraphNode" where
  "newGraphNode nid rest =
     rest\<lparr> nodeId := nid,
           isPrepared := False,
           enabled := 1,
           bypassed := 0,
           mute := 0,
           muteInput := 0,
           latencySamples := 0,
           keyRangeLow := 0,
           keyRangeHigh := 127,
           transposeOffset := 0,
           midiProgram := 0,
           lastMidiProgram := - 1,
           midiProgramsEnabled := 0,
           globalMidiPrograms := 0,
           osPow := 0,
           osLatency := 0 \<rparr>"

subsection \<open>Queries and setters written in the header\<close>

text \<open>\<^verbatim>\<open>String getName() const { return name; }\<close>\<close>

definition getName :: "GraphNode \<Rightarrow> string" where
  "getName n = name n"

text \<open>
  \<^verbatim>\<open>void setName (const String& newName)
  { jassert (newName.isNotEmpty()); if (newName.isNotEmpty()) name = newName; }\<close>
  The \<^verbatim>\<open>jassert\<close> only reports in a debug build; execution goes on to the guard.
\<close>

definition setName :: "string \<Rightarrow> GraphNode \<Rightarrow> GraphNode" where
  "setName newName n = (if newName \<noteq> [] then n\<lparr>name := newName\<rparr> else n)"

text \<open>\<^verbatim>\<open>bool isEnabled() const { return enabled.get() == 1; }\<close> and its siblings.\<close>

definition isEnabled :: "GraphNode \<Rightarrow> bool" where
  "isEnabled n = (enabled n = 1)"

definition isMuted :: "GraphNode \<Rightarrow> bool" where
  "isMuted n = (mute n = 1)"

definition isMutingInputs :: "GraphNode \<Rightarrow> bool" where
  "isMutingInputs n = (muteInput n = 1)"

text \<open>\<^verbatim>\<open>void setMuteInput (bool shouldMuteInput) { muteInput.set (shouldMuteInput ? 1 : 0); }\<close>\<close>

definition setMuteInput :: "bool \<Rightarrow> GraphNode \<Rightarrow> GraphNode" where
  "setMuteInput shouldMuteInput n = n\<lparr>muteInput := (if shouldMuteInput then 1 else 0)\<rparr>"

text \<open>
  \<^verbatim>\<open>Range<int> getKeyRange() const { return Range<int> { keyRangeLow.get(), keyRangeHigh.get() }; }\<close>
  \<^verbatim>\<open>juce::Range (start, end)\<close> keeps \<open>start\<close> and stores \<open>max start end\<close> as its end.
\<close>

definition getKeyRange :: "GraphNode \<Rightarrow> int \<times> int" where
  "getKeyRange n = (keyRangeLow n, max (keyRangeLow n) (keyRangeHigh n))"

definition getTransposeOffset :: "GraphNode \<Rightarrow> int" where
  "getTransposeOffset n = transposeOffset n"

definition getMidiProgram :: "GraphNode \<Rightarrow> int" where
  "getMidiProgram n = midiProgram n"

definition areMidiProgramsEnabled :: "GraphNode \<Rightarrow> bool" where
  "areMidiProgramsEnabled n = (midiProgramsEnabled n = 1)"

definition useGlobalMidiPrograms :: "GraphNode \<Rightarrow> bool" where
  "useGlobalMidiPrograms n = (globalMidiPrograms n = 1)"

subsection \<open>Gain\<close>

definition getGain :: "GraphNode \<Rightarrow> float32" where
  "getGain n = gain n"

definition getLastGain :: "GraphNode \<Rightarrow> float32" where
  "getLastGain n = lastGain n"

definition getInputGain :: "GraphNode \<Rightarrow> float32" where
  "getInputGain n = inputGain n"

definition getLastInputGain :: "GraphNode \<Rightarrow> float32" where
  "getLastInputGain n = lastInputGain n"

text \<open>
  \<^verbatim>\<open>void updateGain() noexcept
  {
      if (lastGain.get() != gain.get())
          lastGain = gain;
      if (lastInputGain.get() != inputGain.get())
          lastInputGain = inputGain;
  }\<close>
\<close>

definition updateGain :: "GraphNode \<Rightarrow> GraphNode" where
  "updateGain n =
     (let n1 = (if float_ne (lastGain n) (gain n) then n\<lparr>lastGain := gain n\<rparr> else n)
      in if float_ne (lastInputGain n1) (inputGain n1)
         then n1\<lparr>lastInputGain := inputGain n1\<rparr> else n1)"

text \<open>
  Modelled from the spec: \<^verbatim>\<open>void setGain (const float f)\<close> is declared in the
  header and its body is not among the sources. The spec: "Setting gain changes getGain()
  immediately; getLastGain() changes only after updateGain() is invoked". The setter
  stores its argument in \<open>gain\<close> and touches nothing else.
\<close>

definition setGain :: "float32 \<Rightarrow> GraphNode \<Rightarrow> GraphNode" where
  "setGain f n = n\<lparr>gain := f\<rparr>"

subsection \<open>Latency\<close>

text \<open>
  The sum of two C++ \<^verbatim>\<open>int\<close>s, as a 32-bit two's complement machine computes it.
\<close>

definition wrap32 :: "int \<Rightarrow> int" where
  "wrap32 x = (x + 2 ^ 31) mod 2 ^ 32 - 2 ^ 31"

definition inInt32 :: "int \<Rightarrow> bool" where
  "inInt32 x = (- (2 ^ 31) \<le> x \<and> x < 2 ^ 31)"

text \<open>
  \<^verbatim>\<open>int getLatencySamples() const { return latencySamples + roundFloatToInt (osLatency); }\<close>
  \<^verbatim>\<open>roundFloatToInt\<close> is JUCE's rounding of a float to the nearest \<^verbatim>\<open>int\<close>; it is
  a library function outside the repository and is the parameter \<open>roundFloatToInt\<close>.
\<close>

definition getLatencySamples :: "(float32 \<Rightarrow> int) \<Rightarrow> GraphNode \<Rightarrow> int" where
  "getLatencySamples roundFloatToInt n =
     wrap32 (latencySamples n + roundFloatToInt (osLatency n))"

text \<open>
  \<^verbatim>\<open>void setLatencySamples (int latency) { if (latencySamples != latency) latencySamples = latency; }\<close>
\<close>

definition setLatencySamples :: "int \<Rightarrow> GraphNode \<Rightarrow> GraphNode" where
  "setLatencySamples latency n =
     (if latencySamples n \<noteq> latency then n\<lparr>latencySamples := latency\<rparr> else n)"

subsection \<open>Level meters\<close>

text \<open>
  \<^verbatim>\<open>float getInputRMS (int chan) const
  { return (chan < inRMS.size()) ? inRMS.getUnchecked (chan)->get() : 0.0f; }\<close>
  \<^verbatim>\<open>getUnchecked\<close> does no bounds check of its own: with a negative \<open>chan\<close> the
  guard passes and the read is outside the array, which the model reports as
  \<open>ReadOutOfBounds\<close>.
\<close>

datatype ReadError = ReadOutOfBounds

definition getUnchecked :: "'a list \<Rightarrow> int \<Rightarrow> ReadError + 'a" where
  "getUnchecked xs i = (if 0 \<le> i \<and> i < int (length xs) then Inr (xs ! nat i) else Inl ReadOutOfBounds)"

definition getInputRMS :: "GraphNode \<Rightarrow> int \<Rightarrow> ReadError + float32" where
  "getInputRMS n chan =
     (if chan < int (length (inRMS n)) then getUnchecked (inRMS n) chan else Inr 0)"

definition getOutputRMS :: "GraphNode \<Rightarrow> int \<Rightarrow> ReadError + float32" where
  "getOutputRMS n chan =
     (if chan < int (length (outRMS n)) then getUnchecked (outRMS n) chan else Inr 0)"

subsection \<open>Flag setters declared in the header\<close>

text \<open>
  Modelled from the spec: \<^verbatim>\<open>void setEnabled (const bool shouldBeEnabled)\<close> is declared
  in the header and its body is not among the sources. The spec lists
  "enabled/bypassed/muted/muteInput flags (independent booleans)"; the setter stores its
  argument in \<open>enabled\<close>, as \<^verbatim>\<open>setMuteInput\<close> does in \<open>muteInput\<close>.
\<close>

definition setEnabled :: "bool \<Rightarrow> GraphNode \<Rightarrow> GraphNode" where
  "setEnabled shouldBeEnabled n = n\<lparr>enabled := (if shouldBeEnabled then 1 else 0)\<rparr>"

text \<open>
  Modelled from the spec: \<^verbatim>\<open>void setMuted (bool muted)\<close> is declared in the header
  and its body is not among the sources; by the same spec sentence it stores its argument
  in \<open>mute\<close>.
\<close>

definition setMuted :: "bool \<Rightarrow> GraphNode \<Rightarrow> GraphNode" where
  "setMuted muted n = n\<lparr>mute := (if muted then 1 else 0)\<rparr>"

text \<open>
  Modelled from the spec: the header has the member \<^verbatim>\<open>Atomic<int> bypassed { 0 }\<close>
  and no function that writes it; the write is in code that is not among the sources.
  By the same spec sentence the bypass setter stores its argument in \<open>bypassed\<close>.
\<close>

definition setBypassed :: "bool \<Rightarrow> GraphNode \<Rightarrow> GraphNode" where
  "setBypassed shouldBypass n = n\<lparr>bypassed := (if shouldBypass then 1 else 0)\<rparr>"

section \<open>Element: the graph processor\<close>

text \<open>
  \<^verbatim>\<open>GraphProcessor\<close> owns the node table and the arc set. The sources hold its
  callers (the graph editor, the application controller) and the forward declaration
  \<^verbatim>\<open>class GraphProcessor;\<close>, not its code, so this section follows the spec's
  description of it (sections 3 and 4.2).
\<close>

text \<open>
  Modelled from the spec: the arc type is not among the sources. "Arc (connection):
  {sourceNodeId, sourcePort, destNodeId, destPort}"; the field names are the ones the
  graph editor reads (\<^verbatim>\<open>arc.sourceNode\<close>, \<^verbatim>\<open>arc.sourcePort\<close>,
  \<^verbatim>\<open>arc.destNode\<close>, \<^verbatim>\<open>arc.destPort\<close>).
\<close>

record Arc =
  sourceNode :: "32 word"
  sourcePort :: "32 word"
  destNode :: "32 word"
  destPort :: "32 word"

text \<open>
  Modelled from the spec: the class \<^verbatim>\<open>GraphProcessor\<close> is not among the sources.
  "GraphProcessor: owns the node table and connection set".
\<close>

record GraphProcessor =
  nodes :: "GraphNode list"
  arcs :: "Arc list"

text \<open>
  Modelled from the spec: the failures of \<^verbatim>\<open>connect\<close>, whose code is not among the
  sources, as section 4.2 names them.
\<close>

datatype ConnectError = InvalidPort | DirectionMismatch | TypeMismatch | Duplicate | WouldCreateCycle

datatype ConnectResult = Connected | Failed ConnectError

definition emptyGraph :: GraphProcessor where
  "emptyGraph = \<lparr>nodes = [], arcs = []\<rparr>"

text \<open>
  Modelled from the spec: node and port lookup of the absent \<^verbatim>\<open>GraphProcessor\<close>.
  "nodeId is unique within a graph", and a port is found on its node by its index; a port
  of a node that is not in the table does not exist.
\<close>

definition getNodeForId :: "GraphProcessor \<Rightarrow> 32 word \<Rightarrow> GraphNode option" where
  "getNodeForId g i = find (\<lambda>n. nodeId n = i) (nodes g)"

definition getPort :: "GraphProcessor \<Rightarrow> 32 word \<Rightarrow> 32 word \<Rightarrow> Port option" where
  "getPort g i p =
     (case getNodeForId g i of
        None \<Rightarrow> None
      | Some n \<Rightarrow> find (\<lambda>q. portIndex q = p) (ports n))"

text \<open>
  Modelled from the spec: the cycle check of the absent \<^verbatim>\<open>connect\<close>, "destination
  can already reach source". It is a depth-first search along the arcs: \<open>a\<close> reaches
  \<open>b\<close> when they are the same node, or when an arc leaves \<open>a\<close> for a node that
  reaches \<open>b\<close> without using the arcs that leave \<open>a\<close> again. Every step drops at
  least one arc, so a search bounded by the number of arcs is a complete one
  (\<open>reachWithin_iff\<close> below).
\<close>

fun reachWithin :: "nat \<Rightarrow> Arc list \<Rightarrow> 32 word \<Rightarrow> 32 word \<Rightarrow> bool" where
  "reachWithin 0 as a b = (a = b)"
| "reachWithin (Suc k) as a b =
     (a = b \<or> (\<exists>x \<in> set as. sourceNode x = a \<and>
                 reachWithin k (filter (\<lambda>y. sourceNode y \<noteq> a) as) (destNode x) b))"

definition canReach :: "Arc list \<Rightarrow> 32 word \<Rightarrow> 32 word \<Rightarrow> bool" where
  "canReach as a b = reachWithin (length as) as a b"

text \<open>
  Modelled from the spec: \<^verbatim>\<open>connect\<close> of the absent \<^verbatim>\<open>GraphProcessor\<close>.
  "connect(srcNode, srcPort, dstNode, dstPort): fails with InvalidPort if either port does
  not exist, DirectionMismatch if source isn't Output or destination isn't Input,
  TypeMismatch if port types differ, Duplicate if the arc already exists,
  WouldCreateCycle if destination can already reach source. On any failure the graph is
  left unchanged (no partial mutation)." The checks run in the order the spec lists them
  and the first that fails names the failure. The function returns the result together
  with the graph after the call.
\<close>

definition connect ::
  "GraphProcessor \<Rightarrow> 32 word \<Rightarrow> 32 word \<Rightarrow> 32 word \<Rightarrow> 32 word \<Rightarrow> ConnectResult \<times> GraphProcessor" where
  "connect g srcNode srcPort dstNode dstPort =
     (let arc = \<lparr>sourceNode = srcNode, sourcePort = srcPort,
                 destNode = dstNode, destPort = dstPort\<rparr>
      in case (getPort g srcNode srcPort, getPort g dstNode dstPort) of
           (Some p, Some q) \<Rightarrow>
             if portDirection p \<noteq> Output \<or> portDirection q \<noteq> Input
               then (Failed DirectionMismatch, g)
             else if portType p \<noteq> portType q
               then (Failed TypeMismatch, g)
             else if arc \<in> set (arcs g)
               then (Failed Duplicate, g)
             else if canReach (arcs g) dstNode srcNode
               then (Failed WouldCreateCycle, g)
             else (Connected, g\<lparr>arcs := arcs g @ [arc]\<rparr>)
         | _ \<Rightarrow> (Failed InvalidPort, g))"

text \<open>
  Modelled from the spec: adding and removing a node, whose code is not among the sources.
  "nodeId is unique within a graph": a node whose id is taken is not added. A node
  "is unprepared and released when removed from the graph"; its arcs go with it.
\<close>

definition addNode :: "GraphProcessor \<Rightarrow> GraphNode \<Rightarrow> GraphProcessor" where
  "addNode g n =
     (if getNodeForId g (nodeId n) = None then g\<lparr>nodes := nodes g @ [n]\<rparr> else g)"

definition removeNode :: "GraphProcessor \<Rightarrow> 32 word \<Rightarrow> GraphProcessor" where
  "removeNode g i =
     g\<lparr>nodes := filter (\<lambda>n. nodeId n \<noteq> i) (nodes g),
       arcs := filter (\<lambda>x. sourceNode x \<noteq> i \<and> destNode x \<noteq> i) (arcs g)\<rparr>"

text \<open>
  Modelled from the spec: \<^verbatim>\<open>disconnect\<close>, whose code is not among the sources.
  "disconnect(node, filters): removes arcs matching input/output and audio/midi filter
  flags"; the flags are the ones the controller passes
  (\<^verbatim>\<open>disconnectNode (node, inputs, outputs, audio, midi)\<close>). An arc has the type of
  its source port.
\<close>

definition arcType :: "GraphProcessor \<Rightarrow> Arc \<Rightarrow> PortType option" where
  "arcType g x = map_option portType (getPort g (sourceNode x) (sourcePort x))"

definition disconnectNode ::
  "GraphProcessor \<Rightarrow> 32 word \<Rightarrow> bool \<Rightarrow> bool \<Rightarrow> bool \<Rightarrow> bool \<Rightarrow> GraphProcessor" where
  "disconnectNode g i inputs outputs audio midi =
     g\<lparr>arcs := filter
         (\<lambda>x. \<not> (((inputs \<and> destNode x = i) \<or> (outputs \<and> sourceNode x = i)) \<and>
                 ((audio \<and> arcType g x = Some Audio) \<or> (midi \<and> arcType g x = Some Midi))))
         (arcs g)\<rparr>"

text \<open>
  The topology edits as data, and a sequence of them run from a graph. The graphs the
  engine can be in are the ones a sequence of edits makes of the empty graph.
\<close>

datatype GraphOp =
    AddNode GraphNode
  | RemoveNode "32 word"
  | Connect "32 word" "32 word" "32 word" "32 word"
  | DisconnectNode "32 word" bool bool bool bool

fun applyOp :: "GraphProcessor \<Rightarrow> GraphOp \<Rightarrow> GraphProcessor" where
  "applyOp g (AddNode n) = addNode g n"
| "applyOp g (RemoveNode i) = removeNode g i"
| "applyOp g (Connect srcNode srcPort dstNode dstPort) =
     snd (connect g srcNode srcPort dstNode dstPort)"
| "applyOp g (DisconnectNode i inputs outputs audio midi) =
     disconnectNode g i inputs outputs audio midi"

definition applyOps :: "GraphProcessor \<Rightarrow> GraphOp list \<Rightarrow> GraphProcessor" where
  "applyOps g ops = foldl applyOp g ops"

text \<open>
  What the properties speak of: the edges the arcs draw between nodes, and a pair of
  ports that passes the port checks of \<open>connect\<close> (both exist, an Output into an
  Input, of one type).
\<close>

definition arcEdges :: "Arc list \<Rightarrow> (32 word \<times> 32 word) set" where
  "arcEdges as = (\<lambda>x. (sourceNode x, destNode x)) ` set as"

definition portsCompatible ::
  "GraphProcessor \<Rightarrow> 32 word \<Rightarrow> 32 word \<Rightarrow> 32 word \<Rightarrow> 32 word \<Rightarrow> bool" where
  "portsCompatible g srcNode srcPort dstNode dstPort =
     (case (getPort g srcNode srcPort, getPort g dstNode dstPort) of
        (Some p, Some q) \<Rightarrow>
          portDirection p = Output \<and> portDirection q = Input \<and> portType p = portType q
      | _ \<Rightarrow> False)"

section \<open>An example node and an example graph\<close>

text \<open>
  Storage before construction, with a name and two meter channels, and the node that
  \<open>newGraphNode\<close> makes of it. The concrete instances below are computed on it.
\<close>

definition rawNode :: GraphNode where
  "rawNode = \<lparr>nodeId = 0, ports = [], isPrepared = False,
       enabled = 0, bypassed = 0, mute = 0, muteInput = 0, latencySamples = 0,
       name = ''Synth'', gain = 0x3F800000, lastGain = 0x3F800000,
       inputGain = 0x3F800000, lastInputGain = 0x3F800000,
       inRMS = [0x3F000000, 0x3E800000], outRMS = [0x3F400000],
       keyRangeLow = 0, keyRangeHigh = 0, transposeOffset = 0,
       midiProgram = 0, lastMidiProgram = 0, midiProgramsEnabled = 0,
       globalMidiPrograms = 0, osPow = 0, osLatency = 0\<rparr>"

definition synthNode :: GraphNode where
  "synthNode = newGraphNode 7 rawNode"

text \<open>
  A node with an audio input, an audio output and a MIDI input, and the graph of three
  such nodes with one arc, from the output of node 1 to the input of node 2.
\<close>

definition effectNode :: "32 word \<Rightarrow> GraphNode" where
  "effectNode i = newGraphNode i (rawNode\<lparr>ports :=
     [\<lparr>portType = Audio, portDirection = Input, portIndex = 0, portChannel = 0, portName = ''in''\<rparr>,
      \<lparr>portType = Audio, portDirection = Output, portIndex = 1, portChannel = 0, portName = ''out''\<rparr>,
      \<lparr>portType = Midi, portDirection = Input, portIndex = 2, portChannel = 0, portName = ''midi''\<rparr>]\<rparr>)"

definition chainOps :: "GraphOp list" where
  "chainOps = [AddNode (effectNode 1), AddNode (effectNode 2), AddNode (effectNode 3),
               Connect 1 1 2 0]"

definition chainGraph :: GraphProcessor where
  "chainGraph = applyOps emptyGraph chainOps"


section \<open>Reachability along the arcs\<close>

lemma arcEdges_filter_subset: "arcEdges (filter P as) \<subseteq> arcEdges as"
  unfolding arcEdges_def by (rule image_mono) simp

lemma in_arcEdges:
  "(a, c) \<in> arcEdges as \<longleftrightarrow> (\<exists>x \<in> set as. sourceNode x = a \<and> destNode x = c)"
  unfolding arcEdges_def image_iff by (simp add: eq_commute conj_commute)

lemma arcEdges_without:
  "arcEdges (filter (\<lambda>y. sourceNode y \<noteq> a) as) = {e \<in> arcEdges as. fst e \<noteq> a}"
proof (rule set_eqI)
  fix e :: "32 word \<times> 32 word"
  obtain s d where e: "e = (s, d)" by (cases e)
  show "e \<in> arcEdges (filter (\<lambda>y. sourceNode y \<noteq> a) as) \<longleftrightarrow>
        e \<in> {e \<in> arcEdges as. fst e \<noteq> a}"
    unfolding e by (simp add: in_arcEdges) blast
qed


lemma leave_last:
  assumes "(y, b) \<in> r\<^sup>*"
  shows "(y, b) \<in> {e \<in> r. fst e \<noteq> a}\<^sup>* \<or>
         (\<exists>c. (a, c) \<in> r \<and> (c, b) \<in> {e \<in> r. fst e \<noteq> a}\<^sup>*)"
  using assms
proof (induction rule: converse_rtrancl_induct)
  case base
  show ?case by simp
next
  case (step y z)
  from step.IH show ?case
  proof
    assume avoid: "(z, b) \<in> {e \<in> r. fst e \<noteq> a}\<^sup>*"
    show ?thesis
    proof (cases "y = a")
      case True
      with step.hyps(1) avoid show ?thesis by blast
    next
      case False
      with step.hyps(1) have "(y, z) \<in> {e \<in> r. fst e \<noteq> a}" by simp
      with avoid show ?thesis by (blast intro: converse_rtrancl_into_rtrancl)
    qed
  next
    assume "\<exists>c. (a, c) \<in> r \<and> (c, b) \<in> {e \<in> r. fst e \<noteq> a}\<^sup>*"
    then show ?thesis ..
  qed
qed

lemma first_step_then_avoid:
  assumes "(a, b) \<in> r\<^sup>*" and "a \<noteq> b"
  shows "\<exists>c. (a, c) \<in> r \<and> (c, b) \<in> {e \<in> r. fst e \<noteq> a}\<^sup>*"
proof -
  from leave_last [OF assms(1), of a] show ?thesis
  proof
    assume "(a, b) \<in> {e \<in> r. fst e \<noteq> a}\<^sup>*"
    then have False
    proof (cases rule: converse_rtranclE)
      case base
      with assms(2) show False by simp
    next
      case (step y)
      from step(1) show False by simp
    qed
    then show ?thesis ..
  qed
qed

lemma reachWithin_iff:
  "length as \<le> k \<Longrightarrow> reachWithin k as a b \<longleftrightarrow> (a, b) \<in> (arcEdges as)\<^sup>*"
proof (induction k arbitrary: as a)
  case 0
  then show ?case by (simp add: arcEdges_def)
next
  case (Suc k)
  let ?rest = "filter (\<lambda>y. sourceNode y \<noteq> a) as"
  have shorter: "length ?rest \<le> k" if "x \<in> set as" "sourceNode x = a" for x
  proof -
    from that have "length ?rest < length as"
      by (intro length_filter_less [of x]) simp_all
    with Suc.prems show ?thesis by simp
  qed
  show ?case
  proof
    assume "reachWithin (Suc k) as a b"
    then consider "a = b"
      | x where "x \<in> set as" "sourceNode x = a" "reachWithin k ?rest (destNode x) b"
      by auto
    then show "(a, b) \<in> (arcEdges as)\<^sup>*"
    proof cases
      case 1
      then show ?thesis by simp
    next
      case 2
      from Suc.IH [OF shorter [OF 2(1,2)]] 2(3)
      have "(destNode x, b) \<in> (arcEdges ?rest)\<^sup>*" by simp
      then have "(destNode x, b) \<in> (arcEdges as)\<^sup>*"
        using rtrancl_mono [OF arcEdges_filter_subset] by blast
      moreover from 2(1,2) have "(a, destNode x) \<in> arcEdges as"
        by (auto simp add: in_arcEdges)
      ultimately show ?thesis by (rule converse_rtrancl_into_rtrancl [rotated])
    qed
  next
    assume path: "(a, b) \<in> (arcEdges as)\<^sup>*"
    show "reachWithin (Suc k) as a b"
    proof (cases "a = b")
      case True
      then show ?thesis by simp
    next
      case False
      from first_step_then_avoid [OF path False]
      obtain c where c: "(a, c) \<in> arcEdges as" "(c, b) \<in> {e \<in> arcEdges as. fst e \<noteq> a}\<^sup>*"
        by blast
      from c(1) obtain x where x: "x \<in> set as" "sourceNode x = a" "destNode x = c"
        by (auto simp add: in_arcEdges)
      from c(2) have "(c, b) \<in> (arcEdges ?rest)\<^sup>*"
        by (simp add: arcEdges_without)
      with Suc.IH [OF shorter [OF x(1,2)]] have "reachWithin k ?rest c b" by simp
      with x show ?thesis by auto
    qed
  qed
qed

lemma canReach_iff: "canReach as a b \<longleftrightarrow> (a, b) \<in> (arcEdges as)\<^sup>*"
  by (simp add: canReach_def reachWithin_iff)

section \<open>What the edits do to the arcs\<close>










lemma chainGraph_eval:
  "chainGraph = \<lparr>nodes = [effectNode 1, effectNode 2, effectNode 3],
                 arcs = [\<lparr>sourceNode = 1, sourcePort = 1, destNode = 2, destPort = 0\<rparr>]\<rparr>"
  by (simp add: chainGraph_def chainOps_def applyOps_def emptyGraph_def addNode_def
      getNodeForId_def connect_def getPort_def canReach_def effectNode_def newGraphNode_def
      rawNode_def)



section \<open>Properties of the node\<close>

text \<open>
  C9. \<^verbatim>\<open>setName\<close> with an empty string keeps the old name; with a non-empty string
  the name read back by \<^verbatim>\<open>getName\<close> is exactly that string.
\<close>

theorem setName_guard:
  "getName (setName [] n) = getName n \<and>
   (newName \<noteq> [] \<longrightarrow> getName (setName newName n) = newName)"
  by (simp add: setName_def getName_def)

theorem setName_guard_witness:
  "getName (setName [] synthNode) = ''Synth'' \<and>
   getName (setName ''Reverb'' synthNode) = ''Reverb''"
  using setName_guard [of synthNode "''Reverb''"]
  by (simp add: getName_def synthNode_def newGraphNode_def rawNode_def)

text \<open>
  C8. The meter queries guard only the upper bound of the channel index. With
  \<open>chan\<close> at or above the number of tracked channels they return \<^verbatim>\<open>0.0f\<close>
  and read nothing; the element is read exactly when \<open>chan\<close> is below that number,
  which for a negative \<open>chan\<close> is a read outside the array.
\<close>

theorem rms_upper_bound_guard:
  "(int (length (inRMS n)) \<le> chan \<longrightarrow> getInputRMS n chan = Inr 0) \<and>
   (int (length (outRMS n)) \<le> chan \<longrightarrow> getOutputRMS n chan = Inr 0) \<and>
   (chan < int (length (inRMS n)) \<longrightarrow> getInputRMS n chan = getUnchecked (inRMS n) chan) \<and>
   (chan < int (length (outRMS n)) \<longrightarrow> getOutputRMS n chan = getUnchecked (outRMS n) chan) \<and>
   (0 \<le> chan \<and> chan < int (length (inRMS n)) \<longrightarrow> getInputRMS n chan = Inr (inRMS n ! nat chan)) \<and>
   (0 \<le> chan \<and> chan < int (length (outRMS n)) \<longrightarrow> getOutputRMS n chan = Inr (outRMS n ! nat chan)) \<and>
   (chan < 0 \<longrightarrow> getInputRMS n chan = Inl ReadOutOfBounds \<and>
                getOutputRMS n chan = Inl ReadOutOfBounds)"
  by (simp add: getInputRMS_def getOutputRMS_def getUnchecked_def)

theorem rms_upper_bound_guard_witness:
  "getInputRMS synthNode 2 = Inr 0 \<and>
   getOutputRMS synthNode 1 = Inr 0 \<and>
   getInputRMS synthNode 1 = Inr 0x3E800000 \<and>
   getOutputRMS synthNode 0 = Inr 0x3F400000 \<and>
   getInputRMS synthNode (- 1) = Inl ReadOutOfBounds \<and>
   getOutputRMS synthNode (- 1) = Inl ReadOutOfBounds"
  using rms_upper_bound_guard [of synthNode 2] rms_upper_bound_guard [of synthNode 1]
    rms_upper_bound_guard [of synthNode 0] rms_upper_bound_guard [of synthNode "- 1"]
  by (simp add: getInputRMS_def getOutputRMS_def getUnchecked_def synthNode_def
      newGraphNode_def rawNode_def)

text \<open>
  C10. A node as the header's default member initialisers leave it: enabled, not muted,
  not muting its inputs, not bypassed, key range \<open>[0, 127]\<close>, transpose offset 0, MIDI
  program 0, MIDI programs and global MIDI programs off.
\<close>

theorem fresh_node_defaults:
  "isEnabled (newGraphNode nid rest) \<and>
   \<not> isMuted (newGraphNode nid rest) \<and>
   \<not> isMutingInputs (newGraphNode nid rest) \<and>
   bypassed (newGraphNode nid rest) = 0 \<and>
   getKeyRange (newGraphNode nid rest) = (0, 127) \<and>
   getTransposeOffset (newGraphNode nid rest) = 0 \<and>
   getMidiProgram (newGraphNode nid rest) = 0 \<and>
   \<not> areMidiProgramsEnabled (newGraphNode nid rest) \<and>
   \<not> useGlobalMidiPrograms (newGraphNode nid rest)"
  by (simp add: newGraphNode_def isEnabled_def isMuted_def isMutingInputs_def
      getKeyRange_def getTransposeOffset_def getMidiProgram_def
      areMidiProgramsEnabled_def useGlobalMidiPrograms_def)

text \<open>
  C4. After \<^verbatim>\<open>setLatencySamples (L)\<close> the latency reported is the \<^verbatim>\<open>int\<close> sum of
  \<open>L\<close> and the rounded oversampling delay \<open>osLatency\<close>; where that sum fits an
  \<^verbatim>\<open>int\<close> it is the number \<open>L + round D\<close>.
\<close>

theorem latency_is_user_plus_oversampling:
  "osLatency (setLatencySamples L n) = osLatency n \<and>
   getLatencySamples rnd (setLatencySamples L n) = wrap32 (L + rnd (osLatency n)) \<and>
   (inInt32 (L + rnd (osLatency n)) \<longrightarrow>
      getLatencySamples rnd (setLatencySamples L n) = L + rnd (osLatency n))"
proof -
  have wrap_id: "wrap32 x = x" if "inInt32 x" for x
  proof -
    from that have "0 \<le> x + 2 ^ 31" and "x + 2 ^ 31 < 2 ^ 32"
      by (simp_all add: inInt32_def)
    then have "(x + 2 ^ 31) mod 2 ^ 32 = x + 2 ^ 31"
      by (rule mod_pos_pos_trivial)
    then show ?thesis
      by (simp add: wrap32_def)
  qed
  have stored: "latencySamples (setLatencySamples L n) = L"
    and kept: "osLatency (setLatencySamples L n) = osLatency n"
    by (simp_all add: setLatencySamples_def)
  from stored kept wrap_id show ?thesis
    by (simp add: getLatencySamples_def)
qed

theorem latency_is_user_plus_oversampling_witness:
  "getLatencySamples (\<lambda>d. if d = 0x42700000 then 60 else 0)
      (setLatencySamples 10 (synthNode\<lparr>osLatency := 0x42700000\<rparr>)) = 70"
proof -
  have fits: "inInt32 (10 + (if (0x42700000 :: float32) = 0x42700000 then 60 else 0))"
    by (simp add: inInt32_def)
  from fits
    latency_is_user_plus_oversampling [of 10 "synthNode\<lparr>osLatency := 0x42700000\<rparr>"
      "\<lambda>d. if d = 0x42700000 then 60 else 0"]
  show ?thesis by simp
qed

text \<open>
  C3. One block of ramp delay. Right after \<^verbatim>\<open>setGain (g)\<close> the pending gain read by
  \<^verbatim>\<open>getGain\<close> is \<open>g\<close> and \<^verbatim>\<open>getLastGain\<close> is what it was; one
  \<^verbatim>\<open>updateGain\<close> later \<^verbatim>\<open>getLastGain\<close> is \<open>g\<close> as well (the same float: the
  very bits of \<open>g\<close> whenever the old value differed from \<open>g\<close> under \<^verbatim>\<open>!=\<close>),
  the pending gain is still \<open>g\<close>, and a second \<^verbatim>\<open>updateGain\<close> changes nothing.
\<close>

theorem gain_one_block_delay:
  "getGain (setGain g n) = g \<and>
   getLastGain (setGain g n) = getLastGain n \<and>
   same_float (getLastGain (updateGain (setGain g n))) g \<and>
   (float_ne (getLastGain n) g \<longrightarrow> getLastGain (updateGain (setGain g n)) = g) \<and>
   getGain (updateGain (setGain g n)) = g \<and>
   updateGain (updateGain (setGain g n)) = updateGain (setGain g n)"
proof -
  have eq_or: "same_float a b" if "\<not> float_ne a b" for a b
    using that by (auto simp add: float_ne_def same_float_def)
  have refl: "same_float a a" for a
    by (simp add: same_float_def)
  have last: "lastGain (updateGain m) = (if float_ne (lastGain m) (gain m) then gain m else lastGain m)"
    and pend: "gain (updateGain m) = gain m" for m
    by (simp_all add: updateGain_def Let_def)
  have same: "same_float (getLastGain (updateGain (setGain g n))) g"
    using eq_or [of "lastGain n" g] refl [of g]
    by (simp add: getLastGain_def last setGain_def)
  have idem: "updateGain (updateGain m) = updateGain m" for m
    by (cases "float_ne (lastGain m) (gain m)"; cases "float_ne (lastInputGain m) (inputGain m)")
      (simp_all add: updateGain_def Let_def)
  from same idem show ?thesis
    by (simp add: getGain_def getLastGain_def last pend setGain_def)
qed

text \<open>
  On the example node: the gain goes from \<^verbatim>\<open>1.0f\<close> to \<^verbatim>\<open>0.5f\<close> one
  \<^verbatim>\<open>updateGain\<close> after it is set. With \<open>lastGain\<close> at \<^verbatim>\<open>+0.0f\<close> and
  \<^verbatim>\<open>-0.0f\<close> set, \<^verbatim>\<open>!=\<close> is false and \<open>lastGain\<close> stays \<^verbatim>\<open>+0.0f\<close>,
  the same float.
\<close>

theorem gain_one_block_delay_witness:
  "getGain (setGain 0x3F000000 synthNode) = 0x3F000000 \<and>
   getLastGain (setGain 0x3F000000 synthNode) = 0x3F800000 \<and>
   getLastGain (updateGain (setGain 0x3F000000 synthNode)) = 0x3F000000 \<and>
   getLastGain (updateGain (setGain 0x80000000 (synthNode\<lparr>lastGain := 0\<rparr>))) = 0 \<and>
   same_float 0 0x80000000"
proof -
  have differs: "float_ne (getLastGain synthNode) 0x3F000000"
    by (simp add: float_ne_def isNaN32_def isZero32_def getLastGain_def synthNode_def
        newGraphNode_def rawNode_def)
  from differs gain_one_block_delay [of "0x3F000000" synthNode]
  have half: "getGain (setGain 0x3F000000 synthNode) = 0x3F000000"
    "getLastGain (setGain 0x3F000000 synthNode) = 0x3F800000"
    "getLastGain (updateGain (setGain 0x3F000000 synthNode)) = 0x3F000000"
    by (simp_all add: getLastGain_def synthNode_def newGraphNode_def rawNode_def)
  have zeros: "getLastGain (updateGain (setGain 0x80000000 (synthNode\<lparr>lastGain := 0\<rparr>))) = 0"
    by (simp add: getLastGain_def updateGain_def setGain_def float_ne_def isNaN32_def
        isZero32_def synthNode_def newGraphNode_def rawNode_def)
  from zeros gain_one_block_delay [of "0x80000000" "synthNode\<lparr>lastGain := 0\<rparr>"]
  have "same_float 0 0x80000000"
    by simp
  with half zeros show ?thesis
    by (intro conjI)
qed

text \<open>
  C7. The four flags are independent. Each setter makes its own query return the value
  set and leaves the other three flags as they were, and the four setters one after the
  other reach every combination of the four flags.
\<close>

theorem flags_independent:
  "(isEnabled (setEnabled b n) = b \<and>
    isMuted (setEnabled b n) = isMuted n \<and>
    isMutingInputs (setEnabled b n) = isMutingInputs n \<and>
    bypassed (setEnabled b n) = bypassed n) \<and>
   (isMuted (setMuted b n) = b \<and>
    isEnabled (setMuted b n) = isEnabled n \<and>
    isMutingInputs (setMuted b n) = isMutingInputs n \<and>
    bypassed (setMuted b n) = bypassed n) \<and>
   (isMutingInputs (setMuteInput b n) = b \<and>
    isEnabled (setMuteInput b n) = isEnabled n \<and>
    isMuted (setMuteInput b n) = isMuted n \<and>
    bypassed (setMuteInput b n) = bypassed n) \<and>
   ((bypassed (setBypassed b n) = 1) = b \<and>
    isEnabled (setBypassed b n) = isEnabled n \<and>
    isMuted (setBypassed b n) = isMuted n \<and>
    isMutingInputs (setBypassed b n) = isMutingInputs n) \<and>
   (isEnabled (setEnabled e (setMuted m (setMuteInput i (setBypassed y n)))) = e \<and>
    isMuted (setEnabled e (setMuted m (setMuteInput i (setBypassed y n)))) = m \<and>
    isMutingInputs (setEnabled e (setMuted m (setMuteInput i (setBypassed y n)))) = i \<and>
    (bypassed (setEnabled e (setMuted m (setMuteInput i (setBypassed y n)))) = 1) = y)"
  by (simp add: isEnabled_def isMuted_def isMutingInputs_def setEnabled_def setMuted_def
      setMuteInput_def setBypassed_def)

section \<open>Properties of the graph\<close>




text \<open>
  C2. A call of \<^verbatim>\<open>connect\<close> either succeeds, adding exactly its arc, or fails with
  one of the five typed failures and leaves the graph as it was. \<open>InvalidPort\<close> means
  a port does not exist; \<open>DirectionMismatch\<close> that both exist and the source is not an
  Output or the destination not an Input; \<open>TypeMismatch\<close> that the directions are
  right and the types differ; \<open>Duplicate\<close> that the ports are compatible and the arc
  is there already; \<open>WouldCreateCycle\<close> that the arc is new and the destination
  reaches the source. The node table is never touched.
\<close>

theorem connect_typed_failure_or_success:
  fixes g :: GraphProcessor
  assumes "arc = \<lparr>sourceNode = srcNode, sourcePort = srcPort,
                   destNode = dstNode, destPort = dstPort\<rparr>"
    and "res = connect g srcNode srcPort dstNode dstPort"
  shows
   "(res = (Connected, g\<lparr>arcs := arcs g @ [arc]\<rparr>) \<or> (\<exists>e. res = (Failed e, g))) \<and>
    (fst res \<noteq> Connected \<longrightarrow> snd res = g) \<and>
    nodes (snd res) = nodes g \<and>
    (fst res = Failed InvalidPort \<longleftrightarrow>
       getPort g srcNode srcPort = None \<or> getPort g dstNode dstPort = None) \<and>
    (fst res = Failed DirectionMismatch \<longleftrightarrow>
       (\<exists>p q. getPort g srcNode srcPort = Some p \<and> getPort g dstNode dstPort = Some q \<and>
              (portDirection p \<noteq> Output \<or> portDirection q \<noteq> Input))) \<and>
    (fst res = Failed TypeMismatch \<longleftrightarrow>
       (\<exists>p q. getPort g srcNode srcPort = Some p \<and> getPort g dstNode dstPort = Some q \<and>
              portDirection p = Output \<and> portDirection q = Input \<and>
              portType p \<noteq> portType q)) \<and>
    (fst res = Failed Duplicate \<longleftrightarrow>
       portsCompatible g srcNode srcPort dstNode dstPort \<and> arc \<in> set (arcs g)) \<and>
    (fst res = Failed WouldCreateCycle \<longleftrightarrow>
       portsCompatible g srcNode srcPort dstNode dstPort \<and> arc \<notin> set (arcs g) \<and>
       (dstNode, srcNode) \<in> (arcEdges (arcs g))\<^sup>*) \<and>
    (fst res = Connected \<longleftrightarrow>
       portsCompatible g srcNode srcPort dstNode dstPort \<and> arc \<notin> set (arcs g) \<and>
       (dstNode, srcNode) \<notin> (arcEdges (arcs g))\<^sup>*)"
proof (cases "getPort g srcNode srcPort")
  case None
  with assms show ?thesis
    by (simp add: connect_def portsCompatible_def)
next
  case (Some p)
  note src = this
  show ?thesis
  proof (cases "getPort g dstNode dstPort")
    case None
    with src assms show ?thesis
      by (simp add: connect_def portsCompatible_def)
  next
    case (Some q)
    note dst = this
    have unfolded: "res =
      (if portDirection p \<noteq> Output \<or> portDirection q \<noteq> Input then (Failed DirectionMismatch, g)
       else if portType p \<noteq> portType q then (Failed TypeMismatch, g)
       else if arc \<in> set (arcs g) then (Failed Duplicate, g)
       else if (dstNode, srcNode) \<in> (arcEdges (arcs g))\<^sup>* then (Failed WouldCreateCycle, g)
       else (Connected, g\<lparr>arcs := arcs g @ [arc]\<rparr>))"
      using assms src dst by (simp add: connect_def Let_def canReach_iff)
    have compat: "portsCompatible g srcNode srcPort dstNode dstPort \<longleftrightarrow>
      portDirection p = Output \<and> portDirection q = Input \<and> portType p = portType q"
      using src dst by (simp add: portsCompatible_def)
    show ?thesis
    proof (cases "portDirection p \<noteq> Output \<or> portDirection q \<noteq> Input")
      case True
      with unfolded have "res = (Failed DirectionMismatch, g)" by simp
      with True src dst compat show ?thesis by auto
    next
      case dirs: False
      show ?thesis
      proof (cases "portType p \<noteq> portType q")
        case True
        with dirs unfolded have "res = (Failed TypeMismatch, g)" by simp
        with True dirs src dst compat show ?thesis by simp
      next
        case types: False
        show ?thesis
        proof (cases "arc \<in> set (arcs g)")
          case True
          with dirs types unfolded have "res = (Failed Duplicate, g)" by simp
          with True dirs types src dst compat show ?thesis by simp
        next
          case fresh: False
          show ?thesis
          proof (cases "(dstNode, srcNode) \<in> (arcEdges (arcs g))\<^sup>*")
            case True
            with fresh dirs types unfolded have "res = (Failed WouldCreateCycle, g)" by simp
            with True fresh dirs types src dst compat show ?thesis by simp
          next
            case False
            with fresh dirs types unfolded
            have "res = (Connected, g\<lparr>arcs := arcs g @ [arc]\<rparr>)" by simp
            with False fresh dirs types src dst compat show ?thesis by simp
          qed
        qed
      qed
    qed
  qed
qed


theorem connect_typed_failure_or_success_witness:
  "connect chainGraph 1 9 2 0 = (Failed InvalidPort, chainGraph) \<and>
   connect chainGraph 1 0 2 0 = (Failed DirectionMismatch, chainGraph) \<and>
   connect chainGraph 1 1 2 2 = (Failed TypeMismatch, chainGraph) \<and>
   connect chainGraph 1 1 2 0 = (Failed Duplicate, chainGraph) \<and>
   connect chainGraph 2 1 1 0 = (Failed WouldCreateCycle, chainGraph) \<and>
   connect chainGraph 2 1 3 0 =
     (Connected, chainGraph\<lparr>arcs := arcs chainGraph @
        [\<lparr>sourceNode = 2, sourcePort = 1, destNode = 3, destPort = 0\<rparr>]\<rparr>)"
proof -
  let ?inP = "\<lparr>portType = Audio, portDirection = Input, portIndex = 0,
               portChannel = 0, portName = ''in''\<rparr>"
  let ?outP = "\<lparr>portType = Audio, portDirection = Output, portIndex = 1,
                portChannel = 0, portName = ''out''\<rparr>"
  let ?midiP = "\<lparr>portType = Midi, portDirection = Input, portIndex = 2,
                 portChannel = 0, portName = ''midi''\<rparr>"
  have ports:
    "getPort chainGraph 1 9 = None"
    "getPort chainGraph 1 0 = Some ?inP"
    "getPort chainGraph 1 1 = Some ?outP"
    "getPort chainGraph 2 0 = Some ?inP"
    "getPort chainGraph 2 1 = Some ?outP"
    "getPort chainGraph 2 2 = Some ?midiP"
    "getPort chainGraph 3 0 = Some ?inP"
    by (simp_all add: chainGraph_eval getPort_def getNodeForId_def effectNode_def
        newGraphNode_def rawNode_def)
  have arcs: "arcs chainGraph = [\<lparr>sourceNode = 1, sourcePort = 1, destNode = 2, destPort = 0\<rparr>]"
    by (simp add: chainGraph_eval)
  have paths: "(1, 2) \<in> (arcEdges (arcs chainGraph))\<^sup>*"
    "(3, 2) \<notin> (arcEdges (arcs chainGraph))\<^sup>*"
    by (simp_all add: arcs canReach_iff [symmetric] canReach_def)
  have compat: "portsCompatible chainGraph 1 1 2 0" "portsCompatible chainGraph 2 1 1 0"
    "portsCompatible chainGraph 2 1 3 0"
    by (simp_all add: portsCompatible_def ports)
  from connect_typed_failure_or_success [OF refl refl, of chainGraph 1 9 2 0] ports
  have invalid: "connect chainGraph 1 9 2 0 = (Failed InvalidPort, chainGraph)"
    by (simp add: prod_eq_iff)
  from connect_typed_failure_or_success [OF refl refl, of chainGraph 1 0 2 0] ports
  have direction: "connect chainGraph 1 0 2 0 = (Failed DirectionMismatch, chainGraph)"
    by (simp add: prod_eq_iff)
  from connect_typed_failure_or_success [OF refl refl, of chainGraph 1 1 2 2] ports
  have types: "connect chainGraph 1 1 2 2 = (Failed TypeMismatch, chainGraph)"
    by (simp add: prod_eq_iff)
  from connect_typed_failure_or_success [OF refl refl, of chainGraph 1 1 2 0] compat arcs
  have duplicate: "connect chainGraph 1 1 2 0 = (Failed Duplicate, chainGraph)"
    by (simp add: prod_eq_iff)
  from connect_typed_failure_or_success [OF refl refl, of chainGraph 2 1 1 0] compat arcs paths
  have cycle: "connect chainGraph 2 1 1 0 = (Failed WouldCreateCycle, chainGraph)"
    by (simp add: prod_eq_iff)
  from connect_typed_failure_or_success [OF refl refl, of chainGraph 2 1 3 0] compat arcs paths
  have connected: "connect chainGraph 2 1 3 0 =
     (Connected, chainGraph\<lparr>arcs := arcs chainGraph @
        [\<lparr>sourceNode = 2, sourcePort = 1, destNode = 3, destPort = 0\<rparr>]\<rparr>)"
    by auto
  from invalid direction types duplicate cycle connected show ?thesis
    by (intro conjI)
qed

end
